theory Spec2Isabelle
  imports Main "HOL-Library.Sublist"
begin

section \<open>JavaScript values\<close>

text \<open>
  A JavaScript string is modelled as a \<^typ>\<open>string\<close>: one \<^typ>\<open>char\<close> per code unit,
  for the code units below 256 (ASCII and Latin-1), which is what paths, commit hashes, tag
  names and the status messages of the program are made of. An optional field
  (\<^verbatim>\<open>tag?: string\<close>) is a \<^typ>\<open>string option\<close>, with \<open>None\<close> for \<^verbatim>\<open>undefined\<close>.
\<close>

abbreviation dquote :: char where "dquote \<equiv> CHR 0x22"
abbreviation dollar :: char where "dollar \<equiv> CHR 0x24"
abbreviation backtick :: char where "backtick \<equiv> CHR 0x60"
abbreviation backslash :: char where "backslash \<equiv> CHR 0x5C"
abbreviation bang :: char where "bang \<equiv> CHR 0x21"
abbreviation newline :: char where "newline \<equiv> CHR 0x0A"
abbreviation slash :: char where "slash \<equiv> CHR 0x2F"
abbreviation colon :: char where "colon \<equiv> CHR 0x3A"

text \<open>
  Truthiness of an optional string, as in \<^verbatim>\<open>if (config.commit)\<close>: \<^verbatim>\<open>undefined\<close> and the
  empty string are falsy.
\<close>

fun truthy :: "string option \<Rightarrow> bool" where
  "truthy None = False"
| "truthy (Some s) = (s \<noteq> [])"

text \<open>An optional string inside a template literal: \<^verbatim>\<open>undefined\<close> prints as its name.\<close>

fun template :: "string option \<Rightarrow> string" where
  "template None = ''undefined''"
| "template (Some s) = s"

text \<open>\<^verbatim>\<open>s.startsWith(p)\<close> and \<^verbatim>\<open>s.substring(0, n)\<close>.\<close>

definition startsWith :: "string \<Rightarrow> string \<Rightarrow> bool" where
  "startsWith s p = (take (length p) s = p)"

definition substring0 :: "string \<Rightarrow> nat \<Rightarrow> string" where
  "substring0 s n = take n s"

text \<open>\<^verbatim>\<open>s.includes(p)\<close>: \<open>p\<close> occurs in \<open>s\<close> as a contiguous run.\<close>

fun str_includes :: "string \<Rightarrow> string \<Rightarrow> bool" where
  "str_includes [] p = (p = [])"
| "str_includes (c # cs) p = (startsWith (c # cs) p \<or> str_includes cs p)"

text \<open>
  \<^verbatim>\<open>s.trim()\<close> removes white space and line terminators from both ends. Below 256 these
  are the code units 9 to 13 (tab, line feed, vertical tab, form feed, carriage return),
  32 (space) and 160 (no-break space).
\<close>

definition js_space :: "char \<Rightarrow> bool" where
  "js_space c = (c = CHR 0x09 \<or> c = CHR 0x0A \<or> c = CHR 0x0B \<or> c = CHR 0x0C \<or> c = CHR 0x0D
                 \<or> c = CHR 0x20 \<or> c = CHR 0xA0)"

definition trim :: "string \<Rightarrow> string" where
  "trim s = rev (dropWhile js_space (rev (dropWhile js_space s)))"

text \<open>
  \<^verbatim>\<open>s.toLowerCase()\<close>: below 256, the letters \<^verbatim>\<open>A\<close> to \<^verbatim>\<open>Z\<close> (65 to 90) and the Latin-1
  capitals 192 to 222 other than the multiplication sign 215 move up by 32.
\<close>

definition lower_char :: "char \<Rightarrow> char" where
  "lower_char c =
     (let n = of_char c :: nat
      in if (65 \<le> n \<and> n \<le> 90) \<or> (192 \<le> n \<and> n \<le> 222 \<and> n \<noteq> 215) then char_of (n + 32) else c)"

definition toLowerCase :: "string \<Rightarrow> string" where
  "toLowerCase s = map lower_char s"

text \<open>
  \<^verbatim>\<open>s.split(sep)\<close> for a one-character separator: the pieces between the separators, of
  which there is always at least one (\<^verbatim>\<open>"".split("/")\<close> is \<^verbatim>\<open>[""]\<close>).
\<close>

fun split_on :: "char \<Rightarrow> string \<Rightarrow> string list" where
  "split_on sep [] = [[]]"
| "split_on sep (c # cs) =
     (if c = sep then [] # split_on sep cs
      else (case split_on sep cs of [] \<Rightarrow> [[c]] | piece # pieces \<Rightarrow> (c # piece) # pieces))"

text \<open>\<^verbatim>\<open>xs.join(sep)\<close>.\<close>

fun join_with :: "string \<Rightarrow> string list \<Rightarrow> string" where
  "join_with sep [] = []"
| "join_with sep [x] = x"
| "join_with sep (x # y # ys) = x @ sep @ join_with sep (y # ys)"

text \<open>
  \<^verbatim>\<open>s.replace(pat, rep)\<close> with a string pattern replaces its first occurrence only (the
  replacement used by the program has no \<^verbatim>\<open>$\<close> pattern in it).
\<close>

fun replace_first :: "string \<Rightarrow> string \<Rightarrow> string \<Rightarrow> string" where
  "replace_first pat rep [] = (if pat = [] then rep else [])"
| "replace_first pat rep (c # cs) =
     (if startsWith (c # cs) pat then rep @ drop (length pat) (c # cs)
      else c # replace_first pat rep cs)"

text \<open>Decimal digits, \<^verbatim>\<open>String(n)\<close> for an integer and \<^verbatim>\<open>parseInt(ds, 10)\<close> for a run of digits.\<close>

definition is_digit :: "char \<Rightarrow> bool" where
  "is_digit c = (let n = of_char c :: nat in 48 \<le> n \<and> n \<le> 57)"

definition digit_char :: "nat \<Rightarrow> char" where
  "digit_char d = char_of (48 + d)"

fun string_of_nat :: "nat \<Rightarrow> string" where
  "string_of_nat n = (if n < 10 then [digit_char n] else string_of_nat (n div 10) @ [digit_char (n mod 10)])"

declare string_of_nat.simps [simp del]

definition string_of_int :: "int \<Rightarrow> string" where
  "string_of_int i = (if i < 0 then CHR ''-'' # string_of_nat (nat (- i)) else string_of_nat (nat i))"

definition parseInt :: "string \<Rightarrow> nat" where
  "parseInt ds = foldl (\<lambda>acc c. 10 * acc + (of_char c - 48)) 0 ds"

text \<open>
  A thrown value. Everything the program throws or catches is an \<^verbatim>\<open>Error\<close> object (its
  own \<^verbatim>\<open>new Error(...)\<close>, and the errors of the file system, of the child process and of
  the git client), with a name and a message. \<open>error_toString\<close> is
  \<^verbatim>\<open>Error.prototype.toString\<close>, which a template literal applies.
\<close>

datatype js_error = JsError (err_name: string) (err_message: string)

fun error_toString :: "js_error \<Rightarrow> string" where
  "error_toString (JsError n m) = (if n = [] then m else if m = [] then n else n @ '': '' @ m)"

section \<open>repos/config.ts: the repository table\<close>

datatype RepoCategory = Core | Libraries | Reference

text \<open>
  \<^verbatim>\<open>RepoConfig\<close>. The fields \<^verbatim>\<open>description\<close> and \<^verbatim>\<open>searchPatterns\<close> are left out: no
  function modelled here reads them.
\<close>

record RepoConfig =
  name :: string
  url :: string
  branch :: "string option"
  tag :: "string option"
  commit :: "string option"
  sparse :: "string list option"
  category :: RepoCategory

text \<open>\<^verbatim>\<open>BASE_REPOS\<close>: the table without its tags, in the order of the source.\<close>

definition base_repo :: "string \<Rightarrow> string \<Rightarrow> string \<Rightarrow> string list option \<Rightarrow> RepoCategory \<Rightarrow> RepoConfig" where
  "base_repo n u b sp cat =
     \<lparr>name = n, url = u, branch = Some b, tag = None, commit = None, sparse = sp, category = cat\<rparr>"

definition BASE_REPOS :: "RepoConfig list" where
  "BASE_REPOS =
    [base_repo ''noir'' ''https://github.com/noir-lang/noir'' ''master''
       (Some [''docs'', ''noir_stdlib'', ''tooling'', ''examples'']) Core,
     base_repo ''noir-examples'' ''https://github.com/noir-lang/noir-examples'' ''master'' None Core,
     base_repo ''noir-bignum'' ''https://github.com/noir-lang/noir-bignum'' ''main'' None Libraries,
     base_repo ''noir_bigcurve'' ''https://github.com/noir-lang/noir_bigcurve'' ''main'' None Libraries,
     base_repo ''noir_json_parser'' ''https://github.com/noir-lang/noir_json_parser'' ''main'' None Libraries,
     base_repo ''noir_string_search'' ''https://github.com/noir-lang/noir_string_search'' ''main'' None Libraries,
     base_repo ''noir_sort'' ''https://github.com/noir-lang/noir_sort'' ''main'' None Libraries,
     base_repo ''poseidon'' ''https://github.com/noir-lang/poseidon'' ''master'' None Libraries,
     base_repo ''sparse_array'' ''https://github.com/noir-lang/sparse_array'' ''master'' None Libraries,
     base_repo ''zk-kit.noir'' ''https://github.com/privacy-scaling-explorations/zk-kit.noir'' ''main'' None Libraries,
     base_repo ''bb.js'' ''https://github.com/AztecProtocol/aztec-packages'' ''next''
       (Some [''barretenberg/ts'']) Libraries,
     base_repo ''awesome-noir'' ''https://github.com/noir-lang/awesome-noir'' ''main'' None Reference]"

text \<open>
  \<^verbatim>\<open>DEFAULT_NOIR_VERSION\<close> and \<^verbatim>\<open>DEFAULT_BB_VERSION\<close> are read from the process environment
  when the module is loaded; they are parameters here, kept in a record.
\<close>

record versions =
  DEFAULT_NOIR_VERSION :: string
  DEFAULT_BB_VERSION :: string

definition getNoirRepos :: "versions \<Rightarrow> string option \<Rightarrow> RepoConfig list" where
  "getNoirRepos vs version =
     (let t = (if truthy version then the version else DEFAULT_NOIR_VERSION vs)
      in map (\<lambda>repo. repo\<lparr>tag :=
                (if name repo = ''noir'' then Some t
                 else if name repo = ''bb.js'' then Some (DEFAULT_BB_VERSION vs)
                 else None)\<rparr>) BASE_REPOS)"

definition NOIR_REPOS :: "versions \<Rightarrow> RepoConfig list" where
  "NOIR_REPOS vs = getNoirRepos vs None"

section \<open>The world outside the program\<close>

text \<open>
  The program acts on a file system and on git repositories through Node's \<^verbatim>\<open>fs\<close> and
  \<^verbatim>\<open>path\<close> modules, \<^verbatim>\<open>child_process\<close>, \<^verbatim>\<open>globby\<close> and the \<^verbatim>\<open>simple-git\<close> client. Their
  state is a value of an arbitrary type \<open>'w\<close>, and what they do is a parameter of the model:
  a record of functions. A command that changes the state returns the new state, or the
  error it throws; a command that fails leaves the state as it found it.
\<close>

datatype effect =
    MkdirSync string                   \<comment> \<open>\<^verbatim>\<open>mkdirSync(path, { recursive: true })\<close>\<close>
  | RmSync string                      \<comment> \<open>\<^verbatim>\<open>rmSync(path, { recursive: true, force: true })\<close>\<close>
  | Clone string string "string list"  \<comment> \<open>\<^verbatim>\<open>simpleGit().clone(url, path, options)\<close>\<close>
  | Raw string "string list"           \<comment> \<open>\<^verbatim>\<open>simpleGit(path).raw(args)\<close>\<close>
  | Fetch string "string list"         \<comment> \<open>\<^verbatim>\<open>simpleGit(path).fetch(args)\<close>\<close>
  | Checkout string string             \<comment> \<open>\<^verbatim>\<open>simpleGit(path).checkout(ref)\<close>\<close>
  | Reset string "string list"         \<comment> \<open>\<^verbatim>\<open>simpleGit(path).reset(args)\<close>\<close>
  | Pull string                        \<comment> \<open>\<^verbatim>\<open>simpleGit(path).pull()\<close>\<close>

record 'w system =
  REPOS_DIR :: string
  path_join :: "string \<Rightarrow> string \<Rightarrow> string"
  path_relative :: "string \<Rightarrow> string \<Rightarrow> string"
  existsSync :: "'w \<Rightarrow> string \<Rightarrow> bool"
  readFileSync :: "'w \<Rightarrow> string \<Rightarrow> js_error + string"
  globbySync :: "'w \<Rightarrow> string \<Rightarrow> string \<Rightarrow> js_error + string list"
  execSync :: "'w \<Rightarrow> string \<Rightarrow> js_error + string"
  git_log :: "'w \<Rightarrow> string \<Rightarrow> js_error + string option"
  git_describe :: "'w \<Rightarrow> string \<Rightarrow> js_error + string"
  perform :: "effect \<Rightarrow> 'w \<Rightarrow> js_error + 'w"

text \<open>
  \<open>git_log sys w path\<close> is \<^verbatim>\<open>(await simpleGit(path).log(["-1"])).latest?.hash\<close>, and
  \<open>git_describe sys w path\<close> is
  \<^verbatim>\<open>await simpleGit(path).raw(["describe", "--tags", "--exact-match", "HEAD"])\<close>; both
  only read. \<open>globbySync sys w pattern cwd\<close> is \<^verbatim>\<open>globbySync(pattern, { cwd, absolute: true,
  ignore: ["**/node_modules/**", "**/.git/**"] })\<close>.

  The state of a run: the world, and the commands issued so far, oldest first.
\<close>

record 'w run =
  world :: 'w
  calls :: "effect list"

definition issue :: "'w system \<Rightarrow> effect \<Rightarrow> 'w run \<Rightarrow> js_error option \<times> 'w run" where
  "issue sys c s =
     (case perform sys c (world s) of
        Inl e \<Rightarrow> (Some e, s\<lparr>calls := calls s @ [c]\<rparr>)
      | Inr w \<Rightarrow> (None, \<lparr>world = w, calls = calls s @ [c]\<rparr>))"

text \<open>A sequence of awaited commands: the first that throws ends it.\<close>

fun issue_all :: "'w system \<Rightarrow> effect list \<Rightarrow> 'w run \<Rightarrow> js_error option \<times> 'w run" where
  "issue_all sys [] s = (None, s)"
| "issue_all sys (c # cs) s =
     (case issue sys c s of
        (Some e, s') \<Rightarrow> (Some e, s')
      | (None, s') \<Rightarrow> issue_all sys cs s')"

section \<open>utils/git.ts\<close>

definition getRepoPath :: "'w system \<Rightarrow> string \<Rightarrow> string" where
  "getRepoPath sys repoName = path_join sys (REPOS_DIR sys) repoName"

definition isRepoCloned :: "'w system \<Rightarrow> 'w \<Rightarrow> string \<Rightarrow> bool" where
  "isRepoCloned sys w repoName = existsSync sys w (path_join sys (getRepoPath sys repoName) ''.git'')"




definition updateRepo :: "'w system \<Rightarrow> string \<Rightarrow> 'w run \<Rightarrow> (js_error + string) \<times> 'w run" where
  "updateRepo sys repoName s =
     (let repoPath = getRepoPath sys repoName in
      if \<not> isRepoCloned sys (world s) repoName
      then (Inl (JsError ''Error'' (''Repository '' @ repoName @ '' is not cloned'')), s)
      else
        (case issue_all sys [Fetch repoPath [''--depth=1''],
                             Reset repoPath [''--hard'', ''origin/HEAD'']] s of
           (None, s1) \<Rightarrow> (Inr (''Updated '' @ repoName), s1)
         | (Some error, s1) \<Rightarrow>
             (case issue sys (Pull repoPath) s1 of
                (None, s2) \<Rightarrow> (Inr (''Updated '' @ repoName), s2)
              | (Some pullError, s2) \<Rightarrow>
                  (Inr (''Failed to update '' @ repoName @ '': '' @ error_toString pullError), s2))))"

definition getRepoCommit :: "'w system \<Rightarrow> 'w \<Rightarrow> string \<Rightarrow> bool \<Rightarrow> js_error + string option" where
  "getRepoCommit sys w repoName full =
     (if \<not> isRepoCloned sys w repoName then Inr None
      else
        (case git_log sys w (getRepoPath sys repoName) of
           Inl e \<Rightarrow> Inl e
         | Inr hash \<Rightarrow>
             (if \<not> truthy hash then Inr None
              else Inr (Some (if full then the hash else substring0 (the hash) 7)))))"

definition getRepoTag :: "'w system \<Rightarrow> 'w \<Rightarrow> string \<Rightarrow> string option" where
  "getRepoTag sys w repoName =
     (if \<not> isRepoCloned sys w repoName then None
      else
        (case git_describe sys w (getRepoPath sys repoName) of
           Inl e \<Rightarrow> None
         | Inr result \<Rightarrow> (if trim result \<noteq> [] then Some (trim result) else None)))"

text \<open>
  \<^verbatim>\<open>!currentCommit?.startsWith(...)\<close>: for a \<^verbatim>\<open>null\<close> commit the optional call gives
  \<^verbatim>\<open>undefined\<close>, whose negation is \<^verbatim>\<open>true\<close>. \<^verbatim>\<open>currentTag !== config.tag\<close> compares a
  string or \<^verbatim>\<open>null\<close> with the string of the pin.
\<close>

definition needsReclone :: "'w system \<Rightarrow> 'w \<Rightarrow> RepoConfig \<Rightarrow> js_error + bool" where
  "needsReclone sys w config =
     (if \<not> isRepoCloned sys w (name config) then Inr True
      else if truthy (commit config) then
        (case getRepoCommit sys w (name config) True of
           Inl e \<Rightarrow> Inl e
         | Inr currentCommit \<Rightarrow>
             Inr (\<not> (case currentCommit of
                        None \<Rightarrow> False
                      | Some h \<Rightarrow> startsWith h (substring0 (the (commit config)) 7))))
      else if truthy (tag config) then
        Inr (getRepoTag sys w (name config) \<noteq> Some (the (tag config)))
      else Inr False)"

text \<open>
  The commands of a fresh checkout, in the order in which \<^verbatim>\<open>cloneRepo\<close> awaits them, and
  the status it returns after them.
\<close>

definition has_sparse :: "RepoConfig \<Rightarrow> bool" where
  "has_sparse config = (case sparse config of None \<Rightarrow> False | Some ps \<Rightarrow> length ps > 0)"

definition branch_args :: "RepoConfig \<Rightarrow> string list" where
  "branch_args config = (if truthy (branch config) then [''-b'', the (branch config)] else [])"

definition tag_refspec :: "string \<Rightarrow> string" where
  "tag_refspec t = ''refs/tags/'' @ t @ '':refs/tags/'' @ t"

definition clone_steps :: "RepoConfig \<Rightarrow> string \<Rightarrow> effect list" where
  "clone_steps config repoPath =
     (if has_sparse config then
        (if truthy (commit config) then
           [Clone (url config) repoPath [''--filter=blob:none'', ''--sparse'', ''--no-checkout''],
            Raw repoPath ([''sparse-checkout'', ''set''] @ the (sparse config)),
            Fetch repoPath [''origin'', the (commit config)],
            Checkout repoPath (the (commit config))]
         else if truthy (tag config) then
           [Clone (url config) repoPath [''--filter=blob:none'', ''--sparse'', ''--no-checkout''],
            Raw repoPath ([''sparse-checkout'', ''set''] @ the (sparse config)),
            Fetch repoPath [''--depth=1'', ''origin'', tag_refspec (the (tag config))],
            Checkout repoPath (the (tag config))]
         else
           [Clone (url config) repoPath
              ([''--filter=blob:none'', ''--sparse'', ''--depth=1''] @ branch_args config),
            Raw repoPath ([''sparse-checkout'', ''set''] @ the (sparse config))])
      else
        (if truthy (commit config) then
           [Clone (url config) repoPath [''--no-checkout''],
            Fetch repoPath [''origin'', the (commit config)],
            Checkout repoPath (the (commit config))]
         else if truthy (tag config) then
           [Clone (url config) repoPath [''--no-checkout''],
            Fetch repoPath [''--depth=1'', ''origin'', tag_refspec (the (tag config))],
            Checkout repoPath (the (tag config))]
         else
           [Clone (url config) repoPath ([''--depth=1''] @ branch_args config)]))"

definition clone_ref :: "RepoConfig \<Rightarrow> string option" where
  "clone_ref config =
     (if truthy (commit config) then commit config
      else if truthy (tag config) then tag config
      else branch config)"

definition clone_refType :: "RepoConfig \<Rightarrow> string" where
  "clone_refType config =
     (if truthy (commit config) then ''commit'' else if truthy (tag config) then ''tag'' else ''branch'')"

definition clone_status :: "RepoConfig \<Rightarrow> string" where
  "clone_status config =
     (if has_sparse config then
        ''Cloned '' @ name config @ '' @ '' @ template (clone_ref config) @ '' ('' @ clone_refType config
          @ '', sparse: '' @ join_with '', '' (the (sparse config)) @ '')''
      else
        ''Cloned '' @ name config @ '' @ '' @ template (clone_ref config) @ '' ('' @ clone_refType config @ '')'')"

definition cloneRepo :: "'w system \<Rightarrow> RepoConfig \<Rightarrow> bool \<Rightarrow> 'w run \<Rightarrow> (js_error + string) \<times> 'w run" where
  "cloneRepo sys config force s =
     (case issue sys (MkdirSync (REPOS_DIR sys)) s of
        (Some e, s0) \<Rightarrow> (Inl e, s0)
      | (None, s0) \<Rightarrow>
          (let repoPath = getRepoPath sys (name config) in
           case needsReclone sys (world s0) config of
             Inl e \<Rightarrow> (Inl e, s0)
           | Inr versionMismatch \<Rightarrow>
               (case (if (force \<or> versionMismatch) \<and> existsSync sys (world s0) repoPath
                      then issue sys (RmSync repoPath) s0 else (None, s0)) of
                  (Some e, s1) \<Rightarrow> (Inl e, s1)
                | (None, s1) \<Rightarrow>
                    if isRepoCloned sys (world s1) (name config)
                    then updateRepo sys (name config) s1
                    else
                      (case issue_all sys (clone_steps config repoPath) s1 of
                         (Some e, s2) \<Rightarrow> (Inl e, s2)
                       | (None, s2) \<Rightarrow> (Inr (clone_status config), s2)))))"

section \<open>tools/sync.ts\<close>

text \<open>
  One entry of \<^verbatim>\<open>SyncResult["repos"]\<close>; its optional \<^verbatim>\<open>commit\<close> is never set by
  \<^verbatim>\<open>syncRepos\<close>. The fields of \<^verbatim>\<open>SyncResult\<close> are prefixed, \<^verbatim>\<open>name\<close> and \<^verbatim>\<open>version\<close>
  being taken.
\<close>

record RepoOutcome =
  outcome_name :: string
  status :: string

record SyncResult =
  success :: bool
  message :: string
  sync_version :: string
  repos :: "RepoOutcome list"

text \<open>
  The selection: the names asked for when there are any, else the categories asked for when
  there are any, else the core repositories.
\<close>

definition reposToSync :: "RepoConfig list \<Rightarrow> string list option \<Rightarrow> RepoCategory list option \<Rightarrow> RepoConfig list" where
  "reposToSync configuredRepos repoNames categories =
     (if repoNames \<noteq> None \<and> length (the repoNames) > 0
      then filter (\<lambda>r. name r \<in> set (the repoNames)) configuredRepos
      else if categories \<noteq> None \<and> length (the categories) > 0
      then filter (\<lambda>r. category r \<in> set (the categories)) configuredRepos
      else filter (\<lambda>r. category r = Core) configuredRepos)"

text \<open>
  The loop over the selection. \<^verbatim>\<open>error instanceof Error ? error.message : String(error)\<close>
  is the message of the error.
\<close>

fun sync_loop :: "'w system \<Rightarrow> bool \<Rightarrow> RepoConfig list \<Rightarrow> 'w run \<Rightarrow> RepoOutcome list \<times> 'w run" where
  "sync_loop sys force [] s = ([], s)"
| "sync_loop sys force (config # rest) s =
     (case cloneRepo sys config force s of
        (Inr st, s1) \<Rightarrow>
          (case sync_loop sys force rest s1 of
             (results, s2) \<Rightarrow> (\<lparr>outcome_name = name config, status = st\<rparr> # results, s2))
      | (Inl error, s1) \<Rightarrow>
          (case sync_loop sys force rest s1 of
             (results, s2) \<Rightarrow>
               (\<lparr>outcome_name = name config, status = ''Error: '' @ err_message error\<rparr> # results, s2)))"

definition allSuccess :: "RepoOutcome list \<Rightarrow> bool" where
  "allSuccess results = list_all (\<lambda>r. \<not> str_includes (toLowerCase (status r)) ''error'') results"

definition syncRepos ::
  "'w system \<Rightarrow> versions \<Rightarrow> bool \<Rightarrow> string list option \<Rightarrow> string option \<Rightarrow> RepoCategory list option
     \<Rightarrow> 'w run \<Rightarrow> SyncResult \<times> 'w run" where
  "syncRepos sys vs force repoNames version categories s =
     (let configuredRepos = (if truthy version then getNoirRepos vs version else NOIR_REPOS vs);
          effectiveVersion = (if truthy version then the version else DEFAULT_NOIR_VERSION vs);
          selected = reposToSync configuredRepos repoNames categories
      in if length selected = 0
         then (\<lparr>success = False,
                message = ''No repositories matched the specified names or categories'',
                sync_version = effectiveVersion, repos = []\<rparr>, s)
         else
           (case sync_loop sys force selected s of
              (results, s') \<Rightarrow>
                (\<lparr>success = allSuccess results,
                  message = (if allSuccess results
                             then ''Successfully synced '' @ string_of_nat (length results)
                                    @ '' repositories to '' @ REPOS_DIR sys
                             else ''Some repositories failed to sync''),
                  sync_version = effectiveVersion, repos = results\<rparr>, s')))"

section \<open>utils/search.ts\<close>

text \<open>\<^verbatim>\<open>SearchResult\<close>; its field \<^verbatim>\<open>file\<close> is \<open>res_file\<close> here (\<open>file\<close> is a keyword).\<close>

record SearchResult =
  res_file :: string
  line :: "nat option"
  content :: string
  repo :: string

text \<open>
  The regular expression engine of the host is a parameter too: \<open>regex_compile rx src cs\<close>
  is \<^verbatim>\<open>new RegExp(src, cs ? "g" : "gi")\<close>, which throws on a pattern that is not well
  formed, and \<open>regex_test rx r s\<close> is \<^verbatim>\<open>r.test(s)\<close> started at \<^verbatim>\<open>lastIndex = 0\<close>, which is
  how \<^verbatim>\<open>manualSearch\<close> runs every test (it sets \<^verbatim>\<open>lastIndex\<close> back to 0 after each one).
\<close>

record 'r regex_engine =
  regex_compile :: "string \<Rightarrow> bool \<Rightarrow> js_error + 'r"
  regex_test :: "'r \<Rightarrow> string \<Rightarrow> bool"

subsection \<open>escapeShell\<close>

text \<open>
  \<^verbatim>\<open>str.replace(/["$`\\!]/g, "\\$&")\<close>: every character of the class is replaced by a
  backslash followed by the character itself; every other character is kept.
\<close>

definition shell_special :: "char \<Rightarrow> bool" where
  "shell_special c = (c = dquote \<or> c = dollar \<or> c = backtick \<or> c = backslash \<or> c = bang)"

fun escapeShell :: "string \<Rightarrow> string" where
  "escapeShell [] = []"
| "escapeShell (c # cs) =
     (if shell_special c then backslash # c # escapeShell cs else c # escapeShell cs)"

subsection \<open>parseRgOutput\<close>

text \<open>
  \<^verbatim>\<open>line.match(/^(.+?):(\d+):(.*)$/)\<close>. A dot matches any character but a line terminator
  (line feed and carriage return, below 256), and the three groups with the two colons
  cover the whole line, so a line with a terminator in it does not match. Otherwise the
  lazy first group is the shortest non-empty prefix that is followed by a colon, a
  non-empty run of digits taken whole, and a colon; the third group is the rest.
\<close>

definition line_terminator :: "char \<Rightarrow> bool" where
  "line_terminator c = (c = CHR 0x0A \<or> c = CHR 0x0D)"

fun rg_match_from :: "string \<Rightarrow> string \<Rightarrow> (string \<times> string \<times> string) option" where
  "rg_match_from pre [] = None"
| "rg_match_from pre (c # cs) =
     (if c = colon \<and> pre \<noteq> [] \<and> takeWhile is_digit cs \<noteq> []
         \<and> take 1 (dropWhile is_digit cs) = [colon]
      then Some (pre, takeWhile is_digit cs, drop 1 (dropWhile is_digit cs))
      else rg_match_from (pre @ [c]) cs)"

definition rg_match :: "string \<Rightarrow> (string \<times> string \<times> string) option" where
  "rg_match l = (if list_ex line_terminator l then None else rg_match_from [] l)"

text \<open>
  The number of a line is a natural number: \<^verbatim>\<open>parseInt\<close> of a run of digits is exact below
  \<open>2 ^ 53\<close>, far above any line number.
\<close>

definition make_result :: "'w system \<Rightarrow> string \<Rightarrow> nat \<Rightarrow> string \<Rightarrow> SearchResult" where
  "make_result sys filePath n text =
     (let relativePath = path_relative sys (REPOS_DIR sys) filePath;
          repoPart = hd (split_on slash relativePath)
      in \<lparr>res_file = relativePath, line = Some n, content = trim text, repo = repoPart\<rparr>)"

fun parse_lines :: "'w system \<Rightarrow> int \<Rightarrow> SearchResult list \<Rightarrow> string list \<Rightarrow> SearchResult list" where
  "parse_lines sys maxResults results [] = results"
| "parse_lines sys maxResults results (l # ls) =
     (if int (length results) \<ge> maxResults then results
      else
        (case rg_match l of
           Some (filePath, lineNum, text) \<Rightarrow>
             parse_lines sys maxResults (results @ [make_result sys filePath (parseInt lineNum) text]) ls
         | None \<Rightarrow> parse_lines sys maxResults results ls))"

definition parseRgOutput :: "'w system \<Rightarrow> string \<Rightarrow> int \<Rightarrow> SearchResult list" where
  "parseRgOutput sys output maxResults =
     parse_lines sys maxResults [] (filter (\<lambda>l. l \<noteq> []) (split_on newline output))"

subsection \<open>manualSearch\<close>

text \<open>
  \<^verbatim>\<open>query.replace(/[.*+?^${}()|[\]\\]/g, "\\$&")\<close>, the pattern that \<^verbatim>\<open>manualSearch\<close> compiles
  when the query itself does not compile.
\<close>

definition regex_special :: "char \<Rightarrow> bool" where
  "regex_special c = (c \<in> set ''.*+?^${}()|[]'' \<or> c = backslash)"

fun escapeRegExp :: "string \<Rightarrow> string" where
  "escapeRegExp [] = []"
| "escapeRegExp (c # cs) =
     (if regex_special c then backslash # c # escapeRegExp cs else c # escapeRegExp cs)"

text \<open>
  The loop over the lines of one file; \<open>i\<close> is the index of the first line of the list
  and \<open>test\<close> is \<^verbatim>\<open>searchRegex.test\<close>.
\<close>

fun scan_lines ::
  "'w system \<Rightarrow> (string \<Rightarrow> bool) \<Rightarrow> int \<Rightarrow> string \<Rightarrow> nat \<Rightarrow> SearchResult list \<Rightarrow> string list
     \<Rightarrow> SearchResult list" where
  "scan_lines sys test maxResults f i results [] = results"
| "scan_lines sys test maxResults f i results (l # ls) =
     (if int (length results) \<ge> maxResults then results
      else scan_lines sys test maxResults f (i + 1)
             (if test l then results @ [make_result sys f (i + 1) l] else results) ls)"

text \<open>The loop over the files; a file that cannot be read is skipped.\<close>

fun scan_files ::
  "'w system \<Rightarrow> 'w \<Rightarrow> (string \<Rightarrow> bool) \<Rightarrow> int \<Rightarrow> SearchResult list \<Rightarrow> string list
     \<Rightarrow> SearchResult list" where
  "scan_files sys w test maxResults results [] = results"
| "scan_files sys w test maxResults results (f # fs) =
     (if int (length results) \<ge> maxResults then results
      else
        (case readFileSync sys w f of
           Inl e \<Rightarrow> scan_files sys w test maxResults results fs
         | Inr text \<Rightarrow>
             scan_files sys w test maxResults
               (scan_lines sys test maxResults f 0 results (split_on newline text)) fs))"

text \<open>
  The regular expression of the search: the query, or the escaped query when the query
  throws. An error of the second compilation is caught by the outer \<^verbatim>\<open>try\<close>.
\<close>

definition compile_query :: "'r regex_engine \<Rightarrow> string \<Rightarrow> bool \<Rightarrow> js_error + 'r" where
  "compile_query rx query caseSensitive =
     (case regex_compile rx query caseSensitive of
        Inr r \<Rightarrow> Inr r
      | Inl e \<Rightarrow> regex_compile rx (escapeRegExp query) caseSensitive)"

definition manualSearch ::
  "'w system \<Rightarrow> 'r regex_engine \<Rightarrow> 'w \<Rightarrow> string \<Rightarrow> string \<Rightarrow> string \<Rightarrow> int \<Rightarrow> bool \<Rightarrow> SearchResult list" where
  "manualSearch sys rx w query searchPath filePattern maxResults caseSensitive =
     (let pattern = replace_first ''*.'' ''**/*.'' filePattern in
      case globbySync sys w pattern searchPath of
        Inl e \<Rightarrow> []
      | Inr files \<Rightarrow>
          (case compile_query rx query caseSensitive of
             Inl e \<Rightarrow> []
           | Inr searchRegex \<Rightarrow>
               scan_files sys w (regex_test rx searchRegex) maxResults [] files))"

subsection \<open>searchCode\<close>

text \<open>The options of \<^verbatim>\<open>searchCode\<close>, each of them optional, and their defaults.\<close>

record SearchOptions =
  opt_filePattern :: "string option"
  opt_repo :: "string option"
  opt_maxResults :: "int option"
  opt_caseSensitive :: "bool option"

definition rg_command :: "string \<Rightarrow> string \<Rightarrow> string \<Rightarrow> int \<Rightarrow> bool \<Rightarrow> string" where
  "rg_command query searchPath filePattern maxResults caseSensitive =
     (let rgFlags = join_with '' ''
            (filter (\<lambda>f. f \<noteq> [])
               [if caseSensitive then [] else ''-i'', ''-n'', ''--no-heading'', ''-g'', filePattern,
                ''-m'', string_of_int (maxResults * 2)])
      in ''rg '' @ rgFlags @ [CHR '' '', dquote] @ escapeShell query @ [dquote, CHR '' '', dquote]
           @ searchPath @ [dquote])"

definition searchPath_of :: "'w system \<Rightarrow> string option \<Rightarrow> string" where
  "searchPath_of sys r = (if truthy r then getRepoPath sys (the r) else REPOS_DIR sys)"

definition searchCode ::
  "'w system \<Rightarrow> 'r regex_engine \<Rightarrow> 'w \<Rightarrow> string \<Rightarrow> SearchOptions \<Rightarrow> SearchResult list" where
  "searchCode sys rx w query options =
     (let filePattern = (case opt_filePattern options of None \<Rightarrow> ''*.nr'' | Some p \<Rightarrow> p);
          maxResults = (case opt_maxResults options of None \<Rightarrow> 50 | Some m \<Rightarrow> m);
          caseSensitive = (case opt_caseSensitive options of None \<Rightarrow> False | Some b \<Rightarrow> b);
          searchPath = searchPath_of sys (opt_repo options)
      in if \<not> existsSync sys w searchPath then []
         else
           (case execSync sys w (rg_command query searchPath filePattern maxResults caseSensitive) of
              Inr result \<Rightarrow> parseRgOutput sys result maxResults
            | Inl e \<Rightarrow> manualSearch sys rx w query searchPath filePattern maxResults caseSensitive))"

subsection \<open>readFile, and readRepoFile of tools/search.ts\<close>

definition readFile :: "'w system \<Rightarrow> 'w \<Rightarrow> string \<Rightarrow> string option" where
  "readFile sys w filePath =
     (let fullPath = (if startsWith filePath ''/'' then filePath
                      else path_join sys (REPOS_DIR sys) filePath)
      in if \<not> existsSync sys w fullPath then None
         else (case readFileSync sys w fullPath of Inl e \<Rightarrow> None | Inr text \<Rightarrow> Some text))"

record ReadResult =
  read_success :: bool
  read_content :: "string option"
  read_message :: string

definition readRepoFile :: "'w system \<Rightarrow> 'w \<Rightarrow> string \<Rightarrow> ReadResult" where
  "readRepoFile sys w path =
     (if \<not> truthy (readFile sys w path)
      then \<lparr>read_success = False, read_content = None,
            read_message = ''File not found: '' @ path
               @ ''. Make sure the path is relative to the repos directory.''\<rparr>
      else \<lparr>read_success = True, read_content = readFile sys w path,
            read_message = ''Read file: '' @ path\<rparr>)"

section \<open>What the shell and the matcher make of an escaped query\<close>





text \<open>
  A pattern made of ordinary characters and of backslash-escaped syntax characters only
  denotes a text: \<open>literal_of\<close> reads it, and answers \<open>None\<close> for any other pattern.
\<close>

fun literal_of :: "string \<Rightarrow> string option" where
  "literal_of [] = Some []"
| "literal_of [c] = (if regex_special c then None else Some [c])"
| "literal_of (c # d # cs) =
     (if c = backslash then
        (if regex_special d then (case literal_of cs of None \<Rightarrow> None | Some t \<Rightarrow> Some (d # t))
         else None)
      else if regex_special c then None
      else (case literal_of (d # cs) of None \<Rightarrow> None | Some t \<Rightarrow> Some (c # t)))"

text \<open>
  An engine honours escapes when every such pattern compiles, and the regular expression
  it gives tests a line by looking for the denoted text in it: \<open>lit cs l s\<close> says that
  the text \<open>l\<close> occurs in the line \<open>s\<close>, with the case of letters told apart (\<open>cs\<close>) or not.
\<close>

definition honours_escapes :: "'r regex_engine \<Rightarrow> (bool \<Rightarrow> string \<Rightarrow> string \<Rightarrow> bool) \<Rightarrow> bool" where
  "honours_escapes rx lit =
     (\<forall>p l cs. literal_of p = Some l \<longrightarrow>
        (\<exists>r. regex_compile rx p cs = Inr r \<and> (\<forall>s. regex_test rx r s = lit cs l s)))"

text \<open>Looking for a text in a line as it is written, or with both in lower case.\<close>

definition occurs_in :: "bool \<Rightarrow> string \<Rightarrow> string \<Rightarrow> bool" where
  "occurs_in cs l s = (if cs then str_includes s l else str_includes (toLowerCase s) (toLowerCase l))"

section \<open>A small system to run the model on\<close>

text \<open>
  The world is a list of paths with the text of each (empty for a directory). The git
  client answers from four parameters: the hash of \<^verbatim>\<open>HEAD\<close>, the output of
  \<^verbatim>\<open>git describe\<close> (none when it fails), whether \<^verbatim>\<open>clone\<close> and \<^verbatim>\<open>fetch\<close> succeed, and
  whether \<^verbatim>\<open>pull\<close> succeeds. The external matcher is not installed.
\<close>

type_synonym sample_world = "(string \<times> string) list"

definition under :: "string \<Rightarrow> string \<Rightarrow> bool" where
  "under dir p = (p = dir \<or> startsWith p (dir @ ''/''))"

definition sample_perform :: "bool \<Rightarrow> bool \<Rightarrow> effect \<Rightarrow> sample_world \<Rightarrow> js_error + sample_world" where
  "sample_perform fetch_ok pull_ok c w =
     (case c of
        MkdirSync p \<Rightarrow> Inr (if map_of w p = None then (p, []) # w else w)
      | RmSync p \<Rightarrow> Inr (filter (\<lambda>e. \<not> under p (fst e)) w)
      | Clone u p opts \<Rightarrow>
          (if fetch_ok then Inr ((p, []) # (p @ ''/.git'', []) # w)
           else Inl (JsError ''Error'' ''clone fail''))
      | Raw p args \<Rightarrow> Inr w
      | Fetch p args \<Rightarrow> (if fetch_ok then Inr w else Inl (JsError ''Error'' ''fetch fail''))
      | Checkout p r \<Rightarrow> Inr w
      | Reset p args \<Rightarrow> Inr w
      | Pull p \<Rightarrow> (if pull_ok then Inr w else Inl (JsError ''Error'' ''pull fail'')))"

definition sample_system :: "string option \<Rightarrow> string option \<Rightarrow> bool \<Rightarrow> bool \<Rightarrow> sample_world system" where
  "sample_system hash described fetch_ok pull_ok =
     \<lparr>REPOS_DIR = ''/m'',
      path_join = (\<lambda>a b. a @ ''/'' @ b),
      path_relative = (\<lambda>a b. if startsWith b (a @ ''/'') then drop (length a + 1) b else b),
      existsSync = (\<lambda>w p. map_of w p \<noteq> None),
      readFileSync = (\<lambda>w p. case map_of w p of None \<Rightarrow> Inl (JsError ''Error'' ''ENOENT'') | Some t \<Rightarrow> Inr t),
      globbySync = (\<lambda>w pat cwd. Inr (filter (\<lambda>p. under cwd p \<and> startsWith (rev p) (rev (drop 4 pat))) (map fst w))),
      execSync = (\<lambda>w cmd. Inl (JsError ''Error'' ''rg: not found'')),
      git_log = (\<lambda>w p. Inr hash),
      git_describe = (\<lambda>w p. case described of None \<Rightarrow> Inl (JsError ''Error'' ''no tag'') | Some t \<Rightarrow> Inr t),
      perform = sample_perform fetch_ok pull_ok\<rparr>"

text \<open>An engine that knows only the patterns that \<open>literal_of\<close> reads.\<close>

definition sample_engine :: "(string \<times> bool) regex_engine" where
  "sample_engine =
     \<lparr>regex_compile = (\<lambda>p cs. case literal_of p of
                                None \<Rightarrow> Inl (JsError ''SyntaxError'' ''Invalid regular expression'')
                              | Some l \<Rightarrow> Inr (l, cs)),
      regex_test = (\<lambda>r s. occurs_in (snd r) (fst r) s)\<rparr>"

definition fresh_run :: "sample_world \<Rightarrow> sample_world run" where
  "fresh_run w = \<lparr>world = w, calls = []\<rparr>"

definition sample_pin :: "string option \<Rightarrow> string option \<Rightarrow> RepoConfig" where
  "sample_pin c t =
     \<lparr>name = ''noir'', url = ''https://github.com/noir-lang/noir'', branch = Some ''master'',
      tag = t, commit = c, sparse = None, category = Core\<rparr>"

definition sample_versions :: versions where
  "sample_versions = \<lparr>DEFAULT_NOIR_VERSION = ''v1.0.0-beta.18'',
                       DEFAULT_BB_VERSION = ''v3.0.0-nightly.20260102''\<rparr>"

definition pin_noir_examples :: RepoConfig where
  "pin_noir_examples =
     \<lparr>name = ''noir-examples'', url = ''https://github.com/noir-lang/noir-examples'',
      branch = Some ''master'', tag = None, commit = None, sparse = None, category = Core\<rparr>"

definition pin_noir_sort :: RepoConfig where
  "pin_noir_sort =
     \<lparr>name = ''noir_sort'', url = ''https://github.com/noir-lang/noir_sort'',
      branch = Some ''main'', tag = None, commit = None, sparse = None, category = Libraries\<rparr>"

section \<open>Facts about strings\<close>

lemma startsWith_prefix: "startsWith s p = prefix p s"
  by (auto simp: startsWith_def prefix_def) (metis append_eq_conv_conj)

lemma startsWith_append [simp]: "startsWith (p @ s) p"
  by (simp add: startsWith_def)

lemma str_includes_append: "str_includes (a @ p @ b) p"
proof (induction a)
  case Nil
  have sw: "startsWith (p @ b) p" by simp
  show ?case
  proof (cases "p @ b")
    case Nil
    then show ?thesis by simp
  next
    case (Cons x xs)
    with sw show ?thesis by simp
  qed
next
  case (Cons c a)
  then show ?case by simp
qed

lemma str_includes_prefix: "str_includes (p @ b) p"
  using str_includes_append [of "[]" p b] by simp

lemma split_on_not_Nil [simp]: "split_on sep s \<noteq> []"
  by (induction s) (simp_all split: list.splits)

lemma hd_split_on: "hd (split_on sep s) = takeWhile (\<lambda>c. c \<noteq> sep) s"
  by (induction s) (auto split: list.splits)

section \<open>The small system, field by field\<close>

lemma sample_system_fields [simp]:
  "REPOS_DIR (sample_system h d f p) = ''/m''"
  "path_join (sample_system h d f p) a b = a @ ''/'' @ b"
  "path_relative (sample_system h d f p) a b
     = (if startsWith b (a @ ''/'') then drop (length a + 1) b else b)"
  "existsSync (sample_system h d f p) w q = (map_of w q \<noteq> None)"
  "readFileSync (sample_system h d f p) w q
     = (case map_of w q of None \<Rightarrow> Inl (JsError ''Error'' ''ENOENT'') | Some t \<Rightarrow> Inr t)"
  "globbySync (sample_system h d f p) w pat cwd
     = Inr (filter (\<lambda>p. under cwd p \<and> startsWith (rev p) (rev (drop 4 pat))) (map fst w))"
  "execSync (sample_system h d f p) w cmd = Inl (JsError ''Error'' ''rg: not found'')"
  "git_log (sample_system h d f p) w q = Inr h"
  "git_describe (sample_system h d f p) w q
     = (case d of None \<Rightarrow> Inl (JsError ''Error'' ''no tag'') | Some t \<Rightarrow> Inr t)"
  "perform (sample_system h d f p) = sample_perform f p"
  by (simp_all add: sample_system_def)

lemma sample_engine_fields [simp]:
  "regex_compile sample_engine q cs
     = (case literal_of q of
          None \<Rightarrow> Inl (JsError ''SyntaxError'' ''Invalid regular expression'')
        | Some l \<Rightarrow> Inr (l, cs))"
  "regex_test sample_engine r s = occurs_in (snd r) (fst r) s"
  by (simp_all add: sample_engine_def)

section \<open>Issuing commands\<close>


lemma issue_fails:
  "perform sys c (world s) = Inl e \<Longrightarrow>
   issue sys c s = (Some e, \<lparr>world = world s, calls = calls s @ [c]\<rparr>)"
  by (simp add: issue_def)



section \<open>needsReclone\<close>







lemma getRepoTag_describe_fails:
  "git_describe sys w (getRepoPath sys repoName) = Inl e \<Longrightarrow> getRepoTag sys w repoName = None"
  by (simp add: getRepoTag_def)

lemma getRepoTag_describe_ok:
  assumes "isRepoCloned sys w repoName" "git_describe sys w (getRepoPath sys repoName) = Inr out"
  shows "getRepoTag sys w repoName = (if trim out \<noteq> [] then Some (trim out) else None)"
  using assms by (simp add: getRepoTag_def)

lemma needsReclone_tag:
  assumes "isRepoCloned sys w (name config)" "\<not> truthy (commit config)" "truthy (tag config)"
  shows "needsReclone sys w config = Inr (getRepoTag sys w (name config) \<noteq> tag config)"
proof -
  from assms(3) obtain t where "tag config = Some t" by (cases "tag config") auto
  with assms show ?thesis by (simp add: needsReclone_def)
qed

lemma needsReclone_branch:
  assumes "isRepoCloned sys w (name config)" "\<not> truthy (commit config)" "\<not> truthy (tag config)"
  shows "needsReclone sys w config = Inr False"
  using assms by (simp add: needsReclone_def)

text \<open>
  C8. For a pin with a tag and no commit whose repository is cloned, \<open>needsReclone\<close> returns
  true exactly when the current exact tag of the mirror, \<open>getRepoTag\<close>, differs from the tag
  of the pin. This tag is none when \<^verbatim>\<open>git describe --tags --exact-match HEAD\<close> fails
  (\<^verbatim>\<open>HEAD\<close> is on no tag), and then the answer is true; when the command prints a tag, the
  answer is whether the printed tag, trimmed, differs from the tag of the pin. For a pin
  with neither commit nor tag whose repository is cloned, \<open>needsReclone\<close> returns false.
\<close>

theorem needsReclone_tag_or_branch_pin:
  assumes "isRepoCloned sys w (name config)" and "\<not> truthy (commit config)"
  shows "(truthy (tag config) \<longrightarrow>
            needsReclone sys w config = Inr (getRepoTag sys w (name config) \<noteq> tag config)
          \<and> (\<forall>e. git_describe sys w (getRepoPath sys (name config)) = Inl e
                  \<longrightarrow> getRepoTag sys w (name config) = None \<and> needsReclone sys w config = Inr True)
          \<and> (\<forall>out. git_describe sys w (getRepoPath sys (name config)) = Inr out
                  \<longrightarrow> needsReclone sys w config = Inr (trim out \<noteq> the (tag config))))
       \<and> (\<not> truthy (tag config) \<longrightarrow> needsReclone sys w config = Inr False)"
proof (cases "truthy (tag config)")
  case True
  then obtain t where t: "tag config = Some t" "t \<noteq> []" by (cases "tag config") auto
  have a: "needsReclone sys w config = Inr (getRepoTag sys w (name config) \<noteq> tag config)"
    using assms True by (rule needsReclone_tag)
  have b: "getRepoTag sys w (name config) = None \<and> needsReclone sys w config = Inr True"
    if "git_describe sys w (getRepoPath sys (name config)) = Inl e" for e
    using a t getRepoTag_describe_fails [OF that] by simp
  have c: "needsReclone sys w config = Inr (trim out \<noteq> the (tag config))"
    if "git_describe sys w (getRepoPath sys (name config)) = Inr out" for out
    using a t getRepoTag_describe_ok [OF assms(1) that] by auto
  from True a b c show ?thesis by blast
next
  case False
  with assms show ?thesis by (simp add: needsReclone_branch)
qed

theorem needsReclone_tag_or_branch_pin_witness:
  "isRepoCloned (sample_system None (Some (''v0.9.0'' @ [newline])) True True) [(''/m/noir/.git'', [])]
        (name (sample_pin None (Some ''v1.0.0'')))
   \<and> \<not> truthy (commit (sample_pin None (Some ''v1.0.0'')))
   \<and> truthy (tag (sample_pin None (Some ''v1.0.0'')))
   \<and> getRepoTag (sample_system None (Some (''v0.9.0'' @ [newline])) True True) [(''/m/noir/.git'', [])]
        (name (sample_pin None (Some ''v1.0.0''))) = Some ''v0.9.0''
   \<and> needsReclone (sample_system None (Some (''v0.9.0'' @ [newline])) True True) [(''/m/noir/.git'', [])]
        (sample_pin None (Some ''v1.0.0'')) = Inr True
   \<and> needsReclone (sample_system None (Some (''v1.0.0'' @ [newline])) True True) [(''/m/noir/.git'', [])]
        (sample_pin None (Some ''v1.0.0'')) = Inr False
   \<and> needsReclone (sample_system None None True True) [(''/m/noir/.git'', [])]
        (sample_pin None (Some ''v1.0.0'')) = Inr True
   \<and> needsReclone (sample_system None None True True) [(''/m/noir/.git'', [])]
        (sample_pin None None) = Inr False"
  using needsReclone_tag_or_branch_pin [of "sample_system None (Some (''v0.9.0'' @ [newline])) True True"
      "[(''/m/noir/.git'', [])]" "sample_pin None (Some ''v1.0.0'')"]
    needsReclone_tag_or_branch_pin [of "sample_system None (Some (''v1.0.0'' @ [newline])) True True"
      "[(''/m/noir/.git'', [])]" "sample_pin None (Some ''v1.0.0'')"]
    needsReclone_tag_or_branch_pin [of "sample_system None None True True"
      "[(''/m/noir/.git'', [])]" "sample_pin None (Some ''v1.0.0'')"]
    needsReclone_tag_or_branch_pin [of "sample_system None None True True"
      "[(''/m/noir/.git'', [])]" "sample_pin None None"]
  by (simp add: sample_pin_def isRepoCloned_def getRepoPath_def
      getRepoTag_def trim_def js_space_def)

section \<open>updateRepo\<close>










section \<open>cloneRepo\<close>









section \<open>syncRepos\<close>

lemma sync_loop_names: "map outcome_name (fst (sync_loop sys force cs s)) = map name cs"
proof (induction cs arbitrary: s)
  case Nil
  show ?case by simp
next
  case (Cons c cs)
  show ?case
  proof (cases "cloneRepo sys c force s")
    case (Pair r s1)
    with Cons.IH [of s1] show ?thesis
      by (cases r; cases "sync_loop sys force cs s1") simp_all
  qed
qed

lemma sync_loop_append:
  "sync_loop sys force (xs @ ys) s =
     (case sync_loop sys force xs s of
        (r1, s1) \<Rightarrow> (case sync_loop sys force ys s1 of (r2, s2) \<Rightarrow> (r1 @ r2, s2)))"
proof (induction xs arbitrary: s)
  case Nil
  show ?case by (simp split: prod.splits)
next
  case (Cons c xs)
  show ?case
  proof (cases "cloneRepo sys c force s")
    case (Pair r s1)
    with Cons.IH [of s1] show ?thesis
      by (cases r; cases "sync_loop sys force xs s1") (simp_all split: prod.splits)
  qed
qed

lemma sync_loop_throwing:
  assumes "sync_loop sys force pre s = (rs, s1)"
    and "cloneRepo sys config force s1 = (Inl e, s2)"
  shows "fst (sync_loop sys force (pre @ config # post) s)
           = rs @ \<lparr>outcome_name = name config, status = ''Error: '' @ err_message e\<rparr>
                # fst (sync_loop sys force post s2)"
  using assms by (simp add: sync_loop_append split: prod.splits)

lemma sync_loop_returning:
  assumes "sync_loop sys force pre s = (rs, s1)"
    and "cloneRepo sys config force s1 = (Inr st, s2)"
  shows "fst (sync_loop sys force (pre @ config # post) s)
           = rs @ \<lparr>outcome_name = name config, status = st\<rparr> # fst (sync_loop sys force post s2)"
  using assms by (simp add: sync_loop_append split: prod.splits)

lemma syncRepos_repos:
  assumes "reposToSync (if truthy version then getNoirRepos vs version else NOIR_REPOS vs)
             repoNames categories = selected"
    and "selected \<noteq> []"
  shows "repos (fst (syncRepos sys vs force repoNames version categories s))
           = fst (sync_loop sys force selected s)"
    and "success (fst (syncRepos sys vs force repoNames version categories s))
           = allSuccess (fst (sync_loop sys force selected s))"
  using assms by (auto simp: syncRepos_def Let_def split: prod.splits)

lemma toLowerCase_Error: "toLowerCase (''Error: '' @ m) = ''error'' @ ('': '' @ toLowerCase m)"
  by (simp add: toLowerCase_def lower_char_def char_of_def bit_Suc_0_iff)

lemma error_status_marked:
  "str_includes (''Error: '' @ m) ''Error''"
  "str_includes (toLowerCase (''Error: '' @ m)) ''error''"
proof -
  have "''Error: '' @ m = ''Error'' @ ('': '' @ m)" by simp
  then show "str_includes (''Error: '' @ m) ''Error''"
    by (simp only: str_includes_prefix)
  show "str_includes (toLowerCase (''Error: '' @ m)) ''error''"
    by (simp only: toLowerCase_Error str_includes_prefix)
qed

text \<open>
  C3. When the selection is not empty, \<open>syncRepos\<close> returns one outcome for each selected
  pin, in the order of the selection. Its success flag is true exactly when no status, put
  in lower case, contains \<^verbatim>\<open>error\<close>. When \<open>cloneRepo\<close> throws for one pin of the selection,
  the outcomes of the pins before it are kept, its own outcome has the status \<^verbatim>\<open>Error: \<close>
  followed by the message of the error, which contains \<^verbatim>\<open>Error\<close>, the loop goes on with
  the pins after it from the state the failed call left, and the success flag is false.
\<close>

theorem syncRepos_isolates_failures:
  assumes "reposToSync (if truthy version then getNoirRepos vs version else NOIR_REPOS vs)
             repoNames categories = selected"
    and "selected \<noteq> []"
  shows "map outcome_name (repos (fst (syncRepos sys vs force repoNames version categories s)))
           = map name selected
       \<and> success (fst (syncRepos sys vs force repoNames version categories s))
           = (\<forall>r \<in> set (repos (fst (syncRepos sys vs force repoNames version categories s))).
                \<not> str_includes (toLowerCase (status r)) ''error'')
       \<and> (\<forall>pre config post rs s1 e s2.
             selected = pre @ config # post
             \<and> sync_loop sys force pre s = (rs, s1)
             \<and> cloneRepo sys config force s1 = (Inl e, s2)
           \<longrightarrow> repos (fst (syncRepos sys vs force repoNames version categories s))
                 = rs @ \<lparr>outcome_name = name config, status = ''Error: '' @ err_message e\<rparr>
                      # fst (sync_loop sys force post s2)
               \<and> str_includes (''Error: '' @ err_message e) ''Error''
               \<and> \<not> success (fst (syncRepos sys vs force repoNames version categories s)))"
  (is "?A \<and> ?B \<and> ?C")
proof (intro conjI)
  note r = syncRepos_repos [OF assms, of sys force s]
  show ?A
    by (simp add: r sync_loop_names)
  show ?B
    by (simp add: r allSuccess_def list_all_iff)
  show ?C
  proof (intro allI impI, elim conjE)
    fix pre config post rs s1 e s2
    assume sel: "selected = pre @ config # post"
      and pre: "sync_loop sys force pre s = (rs, s1)"
      and thr: "cloneRepo sys config force s1 = (Inl e, s2)"
    let ?o = "\<lparr>outcome_name = name config, status = ''Error: '' @ err_message e\<rparr>"
    have rep: "repos (fst (syncRepos sys vs force repoNames version categories s))
           = rs @ ?o # fst (sync_loop sys force post s2)"
      using r(1) sel sync_loop_throwing [OF pre thr, of post] by simp
    have "\<not> allSuccess (rs @ ?o # fst (sync_loop sys force post s2))"
      using error_status_marked(2) [of "err_message e"] by (simp add: allSuccess_def)
    then have "\<not> success (fst (syncRepos sys vs force repoNames version categories s))"
      using r rep by simp
    with rep error_status_marked(1) [of "err_message e"]
    show "repos (fst (syncRepos sys vs force repoNames version categories s))
                 = rs @ ?o # fst (sync_loop sys force post s2)
               \<and> str_includes (''Error: '' @ err_message e) ''Error''
               \<and> \<not> success (fst (syncRepos sys vs force repoNames version categories s))"
      by blast
  qed
qed

theorem syncRepos_isolates_failures_witness:
  "reposToSync (if truthy None then getNoirRepos sample_versions None else NOIR_REPOS sample_versions)
        (Some [''noir-examples'', ''noir_sort'']) None = [pin_noir_examples, pin_noir_sort]
   \<and> [pin_noir_examples, pin_noir_sort] = [] @ pin_noir_examples # [pin_noir_sort]
   \<and> sync_loop (sample_system None None False True) False []
         (fresh_run [(''/m'', []), (''/m/noir_sort/.git'', [])])
        = ([], fresh_run [(''/m'', []), (''/m/noir_sort/.git'', [])])
   \<and> cloneRepo (sample_system None None False True) pin_noir_examples False
         (fresh_run [(''/m'', []), (''/m/noir_sort/.git'', [])])
        = (Inl (JsError ''Error'' ''clone fail''),
           \<lparr>world = [(''/m'', []), (''/m/noir_sort/.git'', [])],
            calls = [MkdirSync ''/m'',
                     Clone ''https://github.com/noir-lang/noir-examples'' ''/m/noir-examples''
                       [''--depth=1'', ''-b'', ''master'']]\<rparr>)
   \<and> repos (fst (syncRepos (sample_system None None False True) sample_versions False
         (Some [''noir-examples'', ''noir_sort'']) None None
         (fresh_run [(''/m'', []), (''/m/noir_sort/.git'', [])])))
        = [\<lparr>outcome_name = ''noir-examples'', status = ''Error: clone fail''\<rparr>,
           \<lparr>outcome_name = ''noir_sort'', status = ''Updated noir_sort''\<rparr>]
   \<and> \<not> success (fst (syncRepos (sample_system None None False True) sample_versions False
         (Some [''noir-examples'', ''noir_sort'']) None None
         (fresh_run [(''/m'', []), (''/m/noir_sort/.git'', [])])))"
proof -
  let ?S = "sample_system None None False True"
  let ?W = "[(''/m'', []), (''/m/noir_sort/.git'', [])]"
  let ?names = "Some [''noir-examples'', ''noir_sort'']"
  let ?s2 = "\<lparr>world = ?W,
             calls = [MkdirSync ''/m'',
                      Clone ''https://github.com/noir-lang/noir-examples'' ''/m/noir-examples''
                        [''--depth=1'', ''-b'', ''master'']]\<rparr>"
  have sel: "reposToSync (if truthy None then getNoirRepos sample_versions None
                          else NOIR_REPOS sample_versions) ?names None
             = [pin_noir_examples, pin_noir_sort]"
    by (simp add: reposToSync_def NOIR_REPOS_def getNoirRepos_def BASE_REPOS_def base_repo_def
        pin_noir_examples_def pin_noir_sort_def)
  have ne: "[pin_noir_examples, pin_noir_sort] \<noteq> []"
    by simp
  have split: "[pin_noir_examples, pin_noir_sort] = [] @ pin_noir_examples # [pin_noir_sort]"
    by simp
  have pre: "sync_loop ?S False [] (fresh_run ?W) = ([], fresh_run ?W)"
    by simp
  have thr: "cloneRepo ?S pin_noir_examples False (fresh_run ?W)
             = (Inl (JsError ''Error'' ''clone fail''), ?s2)"
    by (simp add: cloneRepo_def Let_def issue_def needsReclone_def isRepoCloned_def getRepoPath_def
        clone_steps_def has_sparse_def branch_args_def sample_perform_def fresh_run_def
        pin_noir_examples_def)
  have rest: "fst (sync_loop ?S False [pin_noir_sort] ?s2)
              = [\<lparr>outcome_name = ''noir_sort'', status = ''Updated noir_sort''\<rparr>]"
    by (simp add: cloneRepo_def updateRepo_def Let_def issue_def needsReclone_def isRepoCloned_def
        getRepoPath_def sample_perform_def pin_noir_sort_def)
  from syncRepos_isolates_failures [OF sel ne, of ?S False "fresh_run ?W"] split pre thr
  have r: "repos (fst (syncRepos ?S sample_versions False ?names None None (fresh_run ?W)))
             = [] @ \<lparr>outcome_name = name pin_noir_examples,
                     status = ''Error: '' @ err_message (JsError ''Error'' ''clone fail'')\<rparr>
                  # fst (sync_loop ?S False [pin_noir_sort] ?s2)"
    and f: "\<not> success (fst (syncRepos ?S sample_versions False ?names None None (fresh_run ?W)))"
    by blast+
  have r': "repos (fst (syncRepos ?S sample_versions False ?names None None (fresh_run ?W)))
        = [\<lparr>outcome_name = ''noir-examples'', status = ''Error: clone fail''\<rparr>,
           \<lparr>outcome_name = ''noir_sort'', status = ''Updated noir_sort''\<rparr>]"
    using r rest by (simp add: pin_noir_examples_def)
  show ?thesis
    by (intro conjI sel split pre thr r' f)
qed

section \<open>The two searches: how many results, and their shape\<close>

lemma make_result_fields:
  "res_file (make_result sys p n t) = path_relative sys (REPOS_DIR sys) p"
  "line (make_result sys p n t) = Some n"
  "content (make_result sys p n t) = trim t"
  "repo (make_result sys p n t) = takeWhile (\<lambda>c. c \<noteq> slash) (res_file (make_result sys p n t))"
  by (simp_all add: make_result_def Let_def hd_split_on)

lemma parse_lines_length:
  "length (parse_lines sys maxResults results ls) \<le> max (length results) (nat maxResults)"
proof (induction ls arbitrary: results)
  case Nil
  show ?case by simp
next
  case (Cons l ls)
  show ?case
  proof (cases "int (length results) \<ge> maxResults")
    case True
    then show ?thesis by simp
  next
    case False
    then have small: "length results < nat maxResults" by linarith
    show ?thesis
    proof (cases "rg_match l")
      case None
      with False Cons.IH [of results] show ?thesis by simp
    next
      case (Some m)
      obtain p ds t where m: "m = (p, ds, t)" by (cases m) auto
      from Cons.IH [of "results @ [make_result sys p (parseInt ds) t]"] small
      have "length (parse_lines sys maxResults (results @ [make_result sys p (parseInt ds) t]) ls)
              \<le> nat maxResults"
        by simp
      with False Some m show ?thesis by simp
    qed
  qed
qed

lemma parse_lines_origin:
  assumes "r \<in> set (parse_lines sys maxResults results ls)"
  shows "r \<in> set results
         \<or> (\<exists>l \<in> set ls. \<exists>p ds t. rg_match l = Some (p, ds, t) \<and> r = make_result sys p (parseInt ds) t)"
  using assms
proof (induction ls arbitrary: results)
  case Nil
  then show ?case by simp
next
  case (Cons l ls)
  show ?case
  proof (cases "int (length results) \<ge> maxResults")
    case True
    with Cons.prems show ?thesis by simp
  next
    case False
    show ?thesis
    proof (cases "rg_match l")
      case None
      with False Cons.prems have "r \<in> set (parse_lines sys maxResults results ls)" by simp
      from Cons.IH [OF this] show ?thesis by auto
    next
      case (Some m)
      obtain p ds t where m: "m = (p, ds, t)" by (cases m) auto
      with False Some Cons.prems
      have "r \<in> set (parse_lines sys maxResults (results @ [make_result sys p (parseInt ds) t]) ls)"
        by simp
      from Cons.IH [OF this] Some m show ?thesis by auto
    qed
  qed
qed

lemma scan_lines_length:
  "length (scan_lines sys test maxResults f i results ls) \<le> max (length results) (nat maxResults)"
proof (induction ls arbitrary: results i)
  case Nil
  show ?case by simp
next
  case (Cons l ls)
  show ?case
  proof (cases "int (length results) \<ge> maxResults")
    case True
    then show ?thesis by simp
  next
    case False
    then have small: "length results < nat maxResults" by linarith
    let ?next = "(if test l then results @ [make_result sys f (i + 1) l] else results)"
    from small have "max (length ?next) (nat maxResults) = nat maxResults" by simp
    with Cons.IH [of "i + 1" ?next]
    have "length (scan_lines sys test maxResults f (i + 1) ?next ls) \<le> nat maxResults"
      by simp
    with False show ?thesis by simp
  qed
qed

lemma scan_lines_origin:
  assumes "r \<in> set (scan_lines sys test maxResults f i results ls)"
  shows "r \<in> set results
         \<or> (\<exists>j < length ls. test (ls ! j) \<and> r = make_result sys f (i + j + 1) (ls ! j))"
  using assms
proof (induction ls arbitrary: results i)
  case Nil
  then show ?case by simp
next
  case (Cons l ls)
  show ?case
  proof (cases "int (length results) \<ge> maxResults")
    case True
    with Cons.prems show ?thesis by simp
  next
    case False
    let ?next = "(if test l then results @ [make_result sys f (i + 1) l] else results)"
    from False Cons.prems have "r \<in> set (scan_lines sys test maxResults f (i + 1) ?next ls)"
      by simp
    from Cons.IH [OF this] consider
        (old) "r \<in> set results"
      | (here) "test l" "r = make_result sys f (i + 1) l"
      | (later) j where "j < length ls" "test (ls ! j)" "r = make_result sys f (i + 1 + j + 1) (ls ! j)"
      by (auto split: if_splits)
    then show ?thesis
    proof cases
      case old
      then show ?thesis by simp
    next
      case here
      then have "0 < length (l # ls) \<and> test ((l # ls) ! 0) \<and> r = make_result sys f (i + 0 + 1) ((l # ls) ! 0)"
        by simp
      then show ?thesis by blast
    next
      case later
      then have "Suc j < length (l # ls) \<and> test ((l # ls) ! Suc j)
                 \<and> r = make_result sys f (i + Suc j + 1) ((l # ls) ! Suc j)"
        by simp
      then show ?thesis by blast
    qed
  qed
qed

lemma scan_files_length:
  "length (scan_files sys w test maxResults results fs) \<le> max (length results) (nat maxResults)"
proof (induction fs arbitrary: results)
  case Nil
  show ?case by simp
next
  case (Cons f fs)
  show ?case
  proof (cases "int (length results) \<ge> maxResults")
    case True
    then show ?thesis by simp
  next
    case False
    then have small: "length results < nat maxResults" by linarith
    show ?thesis
    proof (cases "readFileSync sys w f")
      case (Inl e)
      with False Cons.IH [of results] show ?thesis by simp
    next
      case (Inr body)
      let ?next = "scan_lines sys test maxResults f 0 results (split_on newline body)"
      from scan_lines_length [of sys test maxResults f 0 results "split_on newline body"] small
      have "max (length ?next) (nat maxResults) = nat maxResults" by simp
      with Cons.IH [of ?next] have "length (scan_files sys w test maxResults ?next fs) \<le> nat maxResults"
        by simp
      with False Inr show ?thesis by simp
    qed
  qed
qed

lemma scan_files_origin:
  assumes "r \<in> set (scan_files sys w test maxResults results fs)"
  shows "r \<in> set results
         \<or> (\<exists>f \<in> set fs. \<exists>body j. readFileSync sys w f = Inr body \<and> j < length (split_on newline body)
               \<and> test (split_on newline body ! j)
               \<and> r = make_result sys f (j + 1) (split_on newline body ! j))"
  using assms
proof (induction fs arbitrary: results)
  case Nil
  then show ?case by simp
next
  case (Cons f fs)
  show ?case
  proof (cases "int (length results) \<ge> maxResults")
    case True
    with Cons.prems show ?thesis by simp
  next
    case False
    show ?thesis
    proof (cases "readFileSync sys w f")
      case (Inl e)
      with False Cons.prems have "r \<in> set (scan_files sys w test maxResults results fs)" by simp
      from Cons.IH [OF this] show ?thesis by auto
    next
      case (Inr body)
      let ?next = "scan_lines sys test maxResults f 0 results (split_on newline body)"
      from False Inr Cons.prems have "r \<in> set (scan_files sys w test maxResults ?next fs)" by simp
      from Cons.IH [OF this] consider
          (mid) "r \<in> set ?next"
        | (later) "\<exists>f \<in> set fs. \<exists>body j. readFileSync sys w f = Inr body
               \<and> j < length (split_on newline body) \<and> test (split_on newline body ! j)
               \<and> r = make_result sys f (j + 1) (split_on newline body ! j)"
        by blast
      then show ?thesis
      proof cases
        case mid
        from scan_lines_origin [OF mid] Inr show ?thesis by auto
      next
        case later
        then show ?thesis by auto
      qed
    qed
  qed
qed

lemma parseRgOutput_length: "length (parseRgOutput sys out maxResults) \<le> nat maxResults"
  using parse_lines_length [of sys maxResults "[]"] by (simp add: parseRgOutput_def)

lemma manualSearch_length:
  "length (manualSearch sys rx w query searchPath filePattern maxResults caseSensitive) \<le> nat maxResults"
  using scan_files_length [of sys w _ maxResults "[]"]
  by (simp add: manualSearch_def Let_def split: sum.splits)

lemma searchCode_length:
  "length (searchCode sys rx w query options)
     \<le> nat (case opt_maxResults options of None \<Rightarrow> 50 | Some m \<Rightarrow> m)"
proof -
  let ?m = "case opt_maxResults options of None \<Rightarrow> 50 | Some m \<Rightarrow> m"
  let ?p = "searchPath_of sys (opt_repo options)"
  let ?f = "case opt_filePattern options of None \<Rightarrow> ''*.nr'' | Some p \<Rightarrow> p"
  let ?c = "case opt_caseSensitive options of None \<Rightarrow> False | Some b \<Rightarrow> b"
  show ?thesis
  proof (cases "existsSync sys w ?p")
    case False
    then show ?thesis by (simp add: searchCode_def Let_def)
  next
    case True
    show ?thesis
    proof (cases "execSync sys w (rg_command query ?p ?f ?m ?c)")
      case (Inl e)
      with True have "searchCode sys rx w query options = manualSearch sys rx w query ?p ?f ?m ?c"
        by (simp add: searchCode_def Let_def)
      then show ?thesis by (simp only: manualSearch_length)
    next
      case (Inr result)
      with True have "searchCode sys rx w query options = parseRgOutput sys result ?m"
        by (simp add: searchCode_def Let_def)
      then show ?thesis by (simp only: parseRgOutput_length)
    qed
  qed
qed

lemma parseRgOutput_shape:
  assumes "r \<in> set (parseRgOutput sys out maxResults)"
  shows "\<exists>l \<in> set (split_on newline out). \<exists>p ds t.
           rg_match l = Some (p, ds, t)
           \<and> res_file r = path_relative sys (REPOS_DIR sys) p
           \<and> line r = Some (parseInt ds)
           \<and> content r = trim t
           \<and> repo r = takeWhile (\<lambda>c. c \<noteq> slash) (res_file r)"
proof -
  from assms parse_lines_origin [of r sys maxResults "[]" "filter (\<lambda>l. l \<noteq> []) (split_on newline out)"]
  obtain l p ds t where "l \<in> set (split_on newline out)" "rg_match l = Some (p, ds, t)"
    "r = make_result sys p (parseInt ds) t"
    by (auto simp: parseRgOutput_def)
  then show ?thesis
    using make_result_fields [of sys p "parseInt ds" t] by blast
qed

lemma manualSearch_shape:
  assumes "r \<in> set (manualSearch sys rx w query searchPath filePattern maxResults caseSensitive)"
  shows "\<exists>files f body j.
           globbySync sys w (replace_first ''*.'' ''**/*.'' filePattern) searchPath = Inr files
           \<and> f \<in> set files
           \<and> readFileSync sys w f = Inr body
           \<and> j < length (split_on newline body)
           \<and> res_file r = path_relative sys (REPOS_DIR sys) f
           \<and> line r = Some (j + 1)
           \<and> content r = trim (split_on newline body ! j)
           \<and> repo r = takeWhile (\<lambda>c. c \<noteq> slash) (res_file r)"
proof (cases "globbySync sys w (replace_first ''*.'' ''**/*.'' filePattern) searchPath")
  case (Inl e)
  with assms show ?thesis by (simp add: manualSearch_def)
next
  case (Inr files)
  show ?thesis
  proof (cases "compile_query rx query caseSensitive")
    case (Inl e)
    with Inr assms show ?thesis by (simp add: manualSearch_def)
  next
    case Inr2: (Inr searchRegex)
    with Inr assms have "r \<in> set (scan_files sys w (regex_test rx searchRegex) maxResults [] files)"
      by (simp add: manualSearch_def)
    from scan_files_origin [OF this] obtain f body j where
      "f \<in> set files" "readFileSync sys w f = Inr body" "j < length (split_on newline body)"
      "r = make_result sys f (j + 1) (split_on newline body ! j)"
      by auto
    then show ?thesis
      using Inr make_result_fields [of sys f "j + 1" "split_on newline body ! j"] by blast
  qed
qed

text \<open>
  C4. \<open>parseRgOutput\<close>, which reads the output of the external matcher, and
  \<open>manualSearch\<close>, the scan in the process, return at most \<open>maxResults\<close> results (none when
  \<open>maxResults\<close> is not positive), and so does \<open>searchCode\<close>, which is one or the other. Every
  result has the same shape. From \<open>parseRgOutput\<close>: it comes from a line
  \<^verbatim>\<open>path:digits:body\<close> of the output; its file is the path made relative to the directory
  of the mirrors, its line is the number that the digits write, its content is the body
  trimmed, and its repo is the file up to its first slash. From \<open>manualSearch\<close>: it comes
  from line \<open>j\<close> (counted from 0) of a file that the enumeration found and that could be
  read; its file is the path of that file made relative to the directory of the mirrors,
  its line is \<open>j + 1\<close>, its content is the line trimmed, and its repo is the file up to its
  first slash.
\<close>

theorem search_results_bounded_and_shaped:
  "length (parseRgOutput sys out maxResults) \<le> nat maxResults
   \<and> length (manualSearch sys rx w query searchPath filePattern maxResults caseSensitive) \<le> nat maxResults
   \<and> length (searchCode sys rx w query options)
        \<le> nat (case opt_maxResults options of None \<Rightarrow> 50 | Some m \<Rightarrow> m)
   \<and> (\<forall>r \<in> set (parseRgOutput sys out maxResults).
         \<exists>l \<in> set (split_on newline out). \<exists>p ds t.
           rg_match l = Some (p, ds, t)
           \<and> res_file r = path_relative sys (REPOS_DIR sys) p
           \<and> line r = Some (parseInt ds)
           \<and> content r = trim t
           \<and> repo r = takeWhile (\<lambda>c. c \<noteq> slash) (res_file r))
   \<and> (\<forall>r \<in> set (manualSearch sys rx w query searchPath filePattern maxResults caseSensitive).
         \<exists>files f body j.
           globbySync sys w (replace_first ''*.'' ''**/*.'' filePattern) searchPath = Inr files
           \<and> f \<in> set files
           \<and> readFileSync sys w f = Inr body
           \<and> j < length (split_on newline body)
           \<and> res_file r = path_relative sys (REPOS_DIR sys) f
           \<and> line r = Some (j + 1)
           \<and> content r = trim (split_on newline body ! j)
           \<and> repo r = takeWhile (\<lambda>c. c \<noteq> slash) (res_file r))"
  using parseRgOutput_length [of sys out maxResults]
    manualSearch_length [of sys rx w query searchPath filePattern maxResults caseSensitive]
    searchCode_length [of sys rx w query options]
    parseRgOutput_shape [of _ sys out maxResults]
    manualSearch_shape [of _ sys rx w query searchPath filePattern maxResults caseSensitive]
  by (intro conjI ballI) assumption+

theorem search_results_bounded_and_shaped_witness:
  "parseRgOutput (sample_system None None True True)
        (''/m/noir/src/main.nr:42:  fn main() {}'' @ [newline] @ ''not a match'' @ [newline]
           @ ''/m/noir-bignum/src/lib.nr:10:use dep;'') 1
      = [\<lparr>res_file = ''noir/src/main.nr'', line = Some 42, content = ''fn main() {}'', repo = ''noir''\<rparr>]
   \<and> length (parseRgOutput (sample_system None None True True)
        (''/m/noir/src/main.nr:42:  fn main() {}'' @ [newline] @ ''not a match'' @ [newline]
           @ ''/m/noir-bignum/src/lib.nr:10:use dep;'') 1) \<le> nat 1
   \<and> manualSearch (sample_system None None True True) sample_engine
        [(''/m/noir/a.nr'', ''fn main() {}'' @ [newline] @ ''  let x = 1;'' @ [newline] @ '' fn main2() {}'')]
        ''fn main'' ''/m'' ''*.nr'' 1 False
      = [\<lparr>res_file = ''noir/a.nr'', line = Some 1, content = ''fn main() {}'', repo = ''noir''\<rparr>]
   \<and> length (manualSearch (sample_system None None True True) sample_engine
        [(''/m/noir/a.nr'', ''fn main() {}'' @ [newline] @ ''  let x = 1;'' @ [newline] @ '' fn main2() {}'')]
        ''fn main'' ''/m'' ''*.nr'' 1 False) \<le> nat 1"
proof -
  let ?S = "sample_system None None True True"
  let ?out = "''/m/noir/src/main.nr:42:  fn main() {}'' @ [newline] @ ''not a match'' @ [newline]
           @ ''/m/noir-bignum/src/lib.nr:10:use dep;''"
  let ?W = "[(''/m/noir/a.nr'', ''fn main() {}'' @ [newline] @ ''  let x = 1;'' @ [newline] @ '' fn main2() {}'')]"
  have a: "parseRgOutput ?S ?out 1
      = [\<lparr>res_file = ''noir/src/main.nr'', line = Some 42, content = ''fn main() {}'', repo = ''noir''\<rparr>]"
    by (simp add: parseRgOutput_def rg_match_def line_terminator_def is_digit_def parseInt_def
        make_result_def Let_def trim_def js_space_def startsWith_def)
  have b: "manualSearch ?S sample_engine ?W ''fn main'' ''/m'' ''*.nr'' 1 False
      = [\<lparr>res_file = ''noir/a.nr'', line = Some 1, content = ''fn main() {}'', repo = ''noir''\<rparr>]"
    by (simp add: manualSearch_def compile_query_def regex_special_def occurs_in_def under_def
        toLowerCase_def lower_char_def char_of_def bit_Suc_0_iff
        make_result_def Let_def trim_def js_space_def startsWith_def)
  note t = search_results_bounded_and_shaped
    [of ?S ?out 1 sample_engine ?W "''fn main''" "''/m''" "''*.nr''" False]
  note c = t [THEN conjunct1]
  note d = t [THEN conjunct2, THEN conjunct1]
  show ?thesis
    by (intro conjI a b c d)
qed

section \<open>The fallback search on a query that is not a regular expression\<close>

lemma literal_of_escapeRegExp: "literal_of (escapeRegExp q) = Some q"
proof (induction q)
  case Nil
  show ?case by simp
next
  case (Cons c q)
  show ?case
  proof (cases "regex_special c")
    case True
    with Cons show ?thesis by simp
  next
    case False
    then have nb: "c \<noteq> backslash" by (auto simp: regex_special_def)
    show ?thesis
    proof (cases "escapeRegExp q")
      case Nil
      with Cons have "q = []" by simp
      with Nil False show ?thesis by simp
    next
      case (Cons d ds)
      with Cons.IH False nb show ?thesis by simp
    qed
  qed
qed

lemma compile_query_falls_back:
  "regex_compile rx query caseSensitive = Inl e \<Longrightarrow>
   compile_query rx query caseSensitive = regex_compile rx (escapeRegExp query) caseSensitive"
  by (simp add: compile_query_def)

lemma manualSearch_literal:
  assumes "regex_compile rx query caseSensitive = Inl e" and "honours_escapes rx lit"
  shows "manualSearch sys rx w query searchPath filePattern maxResults caseSensitive =
     (case globbySync sys w (replace_first ''*.'' ''**/*.'' filePattern) searchPath of
        Inl e \<Rightarrow> []
      | Inr files \<Rightarrow> scan_files sys w (lit caseSensitive query) maxResults [] files)"
proof -
  from assms(2) literal_of_escapeRegExp [of query] obtain r where
    r: "regex_compile rx (escapeRegExp query) caseSensitive = Inr r"
       "\<forall>s. regex_test rx r s = lit caseSensitive query s"
    unfolding honours_escapes_def by blast
  from r(2) have "regex_test rx r = lit caseSensitive query" by (intro ext) simp
  with r(1) compile_query_falls_back [OF assms(1)] show ?thesis
    by (simp add: manualSearch_def Let_def split: sum.splits)
qed

text \<open>
  C5. \<open>manualSearch\<close> returns a list of results whatever the query is: nothing it calls can
  throw past it. The escaped query has a backslash before each of the characters
  \<^verbatim>\<open>. * + ? ^ $ { } ( ) | [ ] \\<close> and nothing else added, so it is a pattern that denotes the
  query itself as a text. When the query does not compile, the regular expression of the
  search is compiled from the escaped query; and with an engine that reads such a pattern
  as the search of the text it denotes, the results are those of scanning the files for the
  lines in which the query occurs as a text.
\<close>

theorem manualSearch_takes_bad_regex_as_literal:
  "literal_of (escapeRegExp query) = Some query
   \<and> (\<forall>e. regex_compile rx query caseSensitive = Inl e \<longrightarrow>
          compile_query rx query caseSensitive = regex_compile rx (escapeRegExp query) caseSensitive)
   \<and> (\<forall>e. regex_compile rx query caseSensitive = Inl e \<and> honours_escapes rx lit \<longrightarrow>
          manualSearch sys rx w query searchPath filePattern maxResults caseSensitive =
            (case globbySync sys w (replace_first ''*.'' ''**/*.'' filePattern) searchPath of
               Inl e \<Rightarrow> []
             | Inr files \<Rightarrow> scan_files sys w (lit caseSensitive query) maxResults [] files))"
  using literal_of_escapeRegExp [of query] compile_query_falls_back [of rx query caseSensitive]
    manualSearch_literal [of rx query caseSensitive _ lit sys w searchPath filePattern maxResults]
  by blast

lemma sample_engine_honours_escapes: "honours_escapes sample_engine occurs_in"
  by (simp add: honours_escapes_def)

theorem manualSearch_takes_bad_regex_as_literal_witness:
  "regex_compile sample_engine ''[unterminated'' False
      = Inl (JsError ''SyntaxError'' ''Invalid regular expression'')
   \<and> honours_escapes sample_engine occurs_in
   \<and> escapeRegExp ''[unterminated'' = backslash # ''[unterminated''
   \<and> manualSearch (sample_system None None True True) sample_engine
        [(''/m/noir/a.nr'', ''first line'' @ [newline] @ ''  test [Unterminated here'')]
        ''[unterminated'' ''/m'' ''*.nr'' 10 False
      = [\<lparr>res_file = ''noir/a.nr'', line = Some 2, content = ''test [Unterminated here'', repo = ''noir''\<rparr>]"
proof -
  let ?S = "sample_system None None True True"
  let ?W = "[(''/m/noir/a.nr'', ''first line'' @ [newline] @ ''  test [Unterminated here'')]"
  have a: "regex_compile sample_engine ''[unterminated'' False
             = Inl (JsError ''SyntaxError'' ''Invalid regular expression'')"
    by (simp add: regex_special_def)
  have b: "escapeRegExp ''[unterminated'' = backslash # ''[unterminated''"
    by (simp add: regex_special_def)
  have g: "globbySync ?S ?W (replace_first ''*.'' ''**/*.'' ''*.nr'') ''/m'' = Inr [''/m/noir/a.nr'']"
    by (simp add: under_def startsWith_def)
  have sc: "scan_files ?S ?W (occurs_in False ''[unterminated'') 10 [] [''/m/noir/a.nr'']
      = [\<lparr>res_file = ''noir/a.nr'', line = Some 2, content = ''test [Unterminated here'', repo = ''noir''\<rparr>]"
    by (simp add: occurs_in_def toLowerCase_def lower_char_def char_of_def bit_Suc_0_iff
        make_result_def Let_def trim_def js_space_def startsWith_def)
  note t = manualSearch_takes_bad_regex_as_literal
    [of "''[unterminated''" sample_engine False occurs_in ?S ?W "''/m''" "''*.nr''" 10]
  note t3 = t [THEN conjunct2, THEN conjunct2, rule_format, OF conjI [OF a sample_engine_honours_escapes]]
  from t3 have c: "manualSearch ?S sample_engine ?W ''[unterminated'' ''/m'' ''*.nr'' 10 False
      = [\<lparr>res_file = ''noir/a.nr'', line = Some 2, content = ''test [Unterminated here'', repo = ''noir''\<rparr>]"
    by (simp only: g sc sum.case)
  show ?thesis
    by (intro conjI a sample_engine_honours_escapes b c)
qed

section \<open>A search root that does not exist\<close>

lemma searchCode_no_root:
  "\<not> existsSync sys w (searchPath_of sys (opt_repo options)) \<Longrightarrow>
   searchCode sys rx w query options = []"
  by (simp add: searchCode_def Let_def)

lemma manualSearch_no_files:
  "globbySync sys w (replace_first ''*.'' ''**/*.'' filePattern) searchPath = Inr [] \<Longrightarrow>
   manualSearch sys rx w query searchPath filePattern maxResults caseSensitive = []"
  by (simp add: manualSearch_def Let_def split: sum.splits)

lemma manualSearch_glob_fails:
  "globbySync sys w (replace_first ''*.'' ''**/*.'' filePattern) searchPath = Inl e \<Longrightarrow>
   manualSearch sys rx w query searchPath filePattern maxResults caseSensitive = []"
  by (simp add: manualSearch_def Let_def)

text \<open>
  C6. When the root of the search (the directory of the repository named in the options, or
  the directory of the mirrors) does not exist, \<open>searchCode\<close> returns the empty list,
  whether the external matcher would have run or failed: it asks neither. It is a list that
  is returned, not an error. The fallback \<open>manualSearch\<close>, called by itself on a root in
  which the enumeration finds no file or fails, as it does on a directory that is not
  there, returns the empty list too.
\<close>

theorem search_of_missing_root_is_empty:
  "(\<not> existsSync sys w (searchPath_of sys (opt_repo options)) \<longrightarrow>
      searchCode sys rx w query options = [])
   \<and> (globbySync sys w (replace_first ''*.'' ''**/*.'' filePattern) searchPath = Inr [] \<longrightarrow>
        manualSearch sys rx w query searchPath filePattern maxResults caseSensitive = [])
   \<and> (\<forall>e. globbySync sys w (replace_first ''*.'' ''**/*.'' filePattern) searchPath = Inl e \<longrightarrow>
        manualSearch sys rx w query searchPath filePattern maxResults caseSensitive = [])"
  using searchCode_no_root [of sys w options rx query]
    manualSearch_no_files [of sys w filePattern searchPath rx query maxResults caseSensitive]
    manualSearch_glob_fails [of sys w filePattern searchPath _ rx query maxResults caseSensitive]
  by blast

theorem search_of_missing_root_is_empty_witness:
  "\<not> existsSync (sample_system None None True True) []
        (searchPath_of (sample_system None None True True)
           (opt_repo \<lparr>opt_filePattern = None, opt_repo = Some ''noir'', opt_maxResults = None,
                      opt_caseSensitive = None\<rparr>))
   \<and> searchCode (sample_system None None True True) sample_engine [] ''fn main''
        \<lparr>opt_filePattern = None, opt_repo = Some ''noir'', opt_maxResults = None,
         opt_caseSensitive = None\<rparr> = []
   \<and> globbySync (sample_system None None True True) [] (replace_first ''*.'' ''**/*.'' ''*.nr'') ''/m/noir''
        = Inr []
   \<and> manualSearch (sample_system None None True True) sample_engine [] ''fn main'' ''/m/noir'' ''*.nr'' 50 False
        = []"
proof -
  let ?S = "sample_system None None True True"
  let ?o = "\<lparr>opt_filePattern = None, opt_repo = Some ''noir'', opt_maxResults = None,
             opt_caseSensitive = None\<rparr>"
  have a: "\<not> existsSync ?S [] (searchPath_of ?S (opt_repo ?o))"
    by simp
  have g: "globbySync ?S [] (replace_first ''*.'' ''**/*.'' ''*.nr'') ''/m/noir'' = Inr []"
    by simp
  note t = search_of_missing_root_is_empty
    [of ?S "[]" ?o sample_engine "''fn main''" "''*.nr''" "''/m/noir''" 50 False]
  note b = t [THEN conjunct1, rule_format, OF a]
  note c = t [THEN conjunct2, THEN conjunct1, rule_format, OF g]
  show ?thesis
    by (intro conjI a b g c)
qed

section \<open>readFile\<close>

lemma readFile_absolute:
  "startsWith filePath ''/'' \<Longrightarrow>
   readFile sys w filePath =
     (if \<not> existsSync sys w filePath then None
      else (case readFileSync sys w filePath of Inl e \<Rightarrow> None | Inr body \<Rightarrow> Some body))"
  by (simp add: readFile_def)

lemma readFile_relative:
  "\<not> startsWith filePath ''/'' \<Longrightarrow>
   readFile sys w filePath =
     (if \<not> existsSync sys w (path_join sys (REPOS_DIR sys) filePath) then None
      else (case readFileSync sys w (path_join sys (REPOS_DIR sys) filePath) of
              Inl e \<Rightarrow> None | Inr body \<Rightarrow> Some body))"
  by (simp add: readFile_def)

lemma readFile_absolute_any_root:
  "startsWith filePath ''/'' \<Longrightarrow>
   readFile (sys\<lparr>REPOS_DIR := d, path_join := j\<rparr>) w filePath = readFile sys w filePath"
  by (simp add: readFile_def)

lemma readRepoFile_absolute:
  assumes "startsWith filePath ''/''" "existsSync sys w filePath"
    and "readFileSync sys w filePath = Inr body" "body \<noteq> []"
  shows "readRepoFile sys w filePath
           = \<lparr>read_success = True, read_content = Some body,
              read_message = ''Read file: '' @ filePath\<rparr>"
  using assms by (simp add: readRepoFile_def readFile_def)

text \<open>
  C10. \<open>readFile\<close> takes a path that begins with a slash as it is: it reads that very path,
  and the directory of the mirrors and the joining of paths play no part in the result, so
  the read is not confined to that directory; the tool \<open>readRepoFile\<close> then hands out the
  text of any such file that exists, can be read and is not empty. A path that does not
  begin with a slash is joined to the directory of the mirrors. In both cases a file that
  does not exist or cannot be read gives \<^verbatim>\<open>null\<close>, here \<open>None\<close>; nothing is thrown.
\<close>

theorem readFile_reads_absolute_paths_as_they_are:
  "(startsWith filePath ''/'' \<longrightarrow>
      readFile sys w filePath =
        (if \<not> existsSync sys w filePath then None
         else (case readFileSync sys w filePath of Inl e \<Rightarrow> None | Inr body \<Rightarrow> Some body))
      \<and> readFile (sys\<lparr>REPOS_DIR := d, path_join := j\<rparr>) w filePath = readFile sys w filePath
      \<and> (\<forall>body. existsSync sys w filePath \<and> readFileSync sys w filePath = Inr body \<and> body \<noteq> [] \<longrightarrow>
            readRepoFile sys w filePath
              = \<lparr>read_success = True, read_content = Some body,
                 read_message = ''Read file: '' @ filePath\<rparr>))
   \<and> (\<not> startsWith filePath ''/'' \<longrightarrow>
        readFile sys w filePath =
          (if \<not> existsSync sys w (path_join sys (REPOS_DIR sys) filePath) then None
           else (case readFileSync sys w (path_join sys (REPOS_DIR sys) filePath) of
                   Inl e \<Rightarrow> None | Inr body \<Rightarrow> Some body)))"
  using readFile_absolute [of filePath sys w] readFile_relative [of filePath sys w]
    readFile_absolute_any_root [where filePath = filePath and sys = sys and d = d and j = j and w = w]
    readRepoFile_absolute [of filePath sys w]
  by blast

theorem readFile_reads_absolute_paths_as_they_are_witness:
  "startsWith ''/etc/passwd'' ''/''
   \<and> \<not> under (REPOS_DIR (sample_system None None True True)) ''/etc/passwd''
   \<and> readFile (sample_system None None True True)
        [(''/etc/passwd'', ''root:x:0:0''), (''/m/noir/a.nr'', ''fn main() {}'')] ''/etc/passwd''
        = Some ''root:x:0:0''
   \<and> readRepoFile (sample_system None None True True)
        [(''/etc/passwd'', ''root:x:0:0''), (''/m/noir/a.nr'', ''fn main() {}'')] ''/etc/passwd''
        = \<lparr>read_success = True, read_content = Some ''root:x:0:0'',
           read_message = ''Read file: /etc/passwd''\<rparr>
   \<and> \<not> startsWith ''noir/a.nr'' ''/''
   \<and> readFile (sample_system None None True True)
        [(''/etc/passwd'', ''root:x:0:0''), (''/m/noir/a.nr'', ''fn main() {}'')] ''noir/a.nr''
        = Some ''fn main() {}''
   \<and> readFile (sample_system None None True True)
        [(''/etc/passwd'', ''root:x:0:0''), (''/m/noir/a.nr'', ''fn main() {}'')] ''nonexistent.nr''
        = None"
  using readFile_reads_absolute_paths_as_they_are [of "''/etc/passwd''" "sample_system None None True True"
      "[(''/etc/passwd'', ''root:x:0:0''), (''/m/noir/a.nr'', ''fn main() {}'')]"]
    readFile_reads_absolute_paths_as_they_are [of "''noir/a.nr''" "sample_system None None True True"
      "[(''/etc/passwd'', ''root:x:0:0''), (''/m/noir/a.nr'', ''fn main() {}'')]"]
    readFile_reads_absolute_paths_as_they_are [of "''nonexistent.nr''" "sample_system None None True True"
      "[(''/etc/passwd'', ''root:x:0:0''), (''/m/noir/a.nr'', ''fn main() {}'')]"]
  by (simp add: startsWith_def under_def)

section \<open>Properties of escapeShell\<close>




end
